theory Spec2Isabelle
  imports Complex_Main "HOL-Library.Char_ord" "HOL-Library.List_Lexorder"
begin

section \<open>Python values and exceptions\<close>

text \<open>
  The module \<^verbatim>\<open>q2_differential/_model.py\<close> raises no exception class of its own: every
  failure is a built-in Python exception, raised by the module or by a library call it makes.
  An exception is a value \<open>Inl e\<close> of the result type \<open>pyerror + 'a\<close>.
\<close>

datatype pyerror =
    NameError
  | ValueError
  | KeyError
  | IndexError
  | ZeroDivisionError
  | UnknownIDError
  | NotFittedError

text \<open>Sequencing of two steps: an exception of the first one skips the second.\<close>

definition and_then :: "pyerror + 'a \<Rightarrow> ('a \<Rightarrow> pyerror + 'b) \<Rightarrow> pyerror + 'b" where
  "and_then m f = (case m of Inl e \<Rightarrow> Inl e | Inr x \<Rightarrow> f x)"

text \<open>
  The values that end up in coordinate lists and in Python sets: metadata cells are strings,
  group codes are integers, and an argument left out is \<^verbatim>\<open>None\<close>.
\<close>

datatype pyval = PStr string | PInt int | PNone

section \<open>The categorical encoder (\<^verbatim>\<open>relabel\<close>, lines 33-37)\<close>

text \<open>
  \<^verbatim>\<open>sklearn.preprocessing.LabelEncoder\<close>: \<^verbatim>\<open>fit\<close> stores \<^verbatim>\<open>np.unique(x)\<close>, the sorted
  distinct labels, as \<^verbatim>\<open>classes_\<close>; \<^verbatim>\<open>transform\<close> raises \<^verbatim>\<open>ValueError\<close> on a label that
  was not seen by \<^verbatim>\<open>fit\<close> and otherwise returns \<^verbatim>\<open>np.searchsorted(classes_, y)\<close>, the
  number of classes strictly below each label. An encoder that was never fitted has no classes.
\<close>

record LabelEncoder =
  classes :: "string list option"

definition LabelEncoder_new :: LabelEncoder where
  "LabelEncoder_new = \<lparr>classes = None\<rparr>"

definition np_unique :: "'a::linorder list \<Rightarrow> 'a list" where
  "np_unique x = sort (remdups x)"

definition searchsorted :: "'a::linorder list \<Rightarrow> 'a \<Rightarrow> int" where
  "searchsorted cs v = int (length (filter (\<lambda>c. c < v) cs))"

definition fit :: "LabelEncoder \<Rightarrow> string list \<Rightarrow> LabelEncoder" where
  "fit encoder x = encoder\<lparr>classes := Some (np_unique x)\<rparr>"

definition transform :: "LabelEncoder \<Rightarrow> string list \<Rightarrow> pyerror + int list" where
  "transform encoder y =
     (case classes encoder of
        None \<Rightarrow> Inl NotFittedError
      | Some cs \<Rightarrow>
          if \<exists>v \<in> set y. v \<notin> set cs then Inl ValueError
          else Inr (map (searchsorted cs) y))"

definition relabel :: "string list \<Rightarrow> pyerror + (int list \<times> LabelEncoder)" where
  "relabel x =
     (let encoder = fit LabelEncoder_new x
      in and_then (transform encoder x) (\<lambda>ids. Inr (ids, encoder)))"

section \<open>Count tables and normalization (\<^verbatim>\<open>_normalization_func\<close>, lines 12-21)\<close>

text \<open>
  A \<^verbatim>\<open>biom.Table\<close>: the sample ids (\<^verbatim>\<open>table.ids()\<close>), the observation (feature) ids
  (\<^verbatim>\<open>table.ids(axis='observation')\<close>) and the counts, one row per observation and one entry
  per sample in each row, as \<^verbatim>\<open>table.matrix_data\<close> stores them.
\<close>

record Table =
  sample_ids :: "string list"
  observation_ids :: "string list"
  matrix_data :: "nat list list"

text \<open>
  A floating-point result of \<^verbatim>\<open>np.log\<close>. Rounding is not modelled: a finite result is the
  real logarithm. \<^verbatim>\<open>np.log(0)\<close> is \<^verbatim>\<open>-inf\<close>; numpy warns and raises nothing.
\<close>

datatype npfloat = Finite real | NegInf

definition np_log :: "nat \<Rightarrow> npfloat" where
  "np_log n = (if n = 0 then NegInf else Finite (ln (real n)))"

text \<open>\<^verbatim>\<open>table.sum(axis='sample')\<close>: the total count of each sample, in sample order.\<close>

definition sample_total :: "Table \<Rightarrow> nat \<Rightarrow> nat" where
  "sample_total table j = sum_list (map (\<lambda>row. row ! j) (matrix_data table))"

definition table_sum_sample :: "Table \<Rightarrow> nat list" where
  "table_sum_sample table = map (sample_total table) [0..<length (sample_ids table)]"

text \<open>
  In the branch \<^verbatim>\<open>'median_ratios'\<close>, line 14 builds \<^verbatim>\<open>K\<close> and line 15 evaluates
  \<^verbatim>\<open>gmean(counts, axis=0)\<close>. The name \<^verbatim>\<open>counts\<close> is bound nowhere, neither in the function
  nor in the module, so line 15 raises \<^verbatim>\<open>NameError\<close> before anything is computed from
  \<^verbatim>\<open>K\<close>.
\<close>

definition normalization_func :: "Table \<Rightarrow> string \<Rightarrow> pyerror + npfloat list" where
  "normalization_func table norm' =
     (if norm' = ''median_ratios'' then Inl NameError
      else if norm' = ''depth'' then Inr (map np_log (table_sum_sample table))
      else Inl ValueError)"

section \<open>Sample metadata\<close>

text \<open>
  A \<^verbatim>\<open>pandas.DataFrame\<close> of labels: its index (the sample id of each row) and its columns
  by name, each column holding one value per row.
\<close>

record DataFrame =
  df_index :: "string list"
  df_columns :: "(string \<times> string list) list"

text \<open>\<^verbatim>\<open>metadata[column]\<close>: the values of a column; \<^verbatim>\<open>KeyError\<close> when there is none.\<close>

definition getitem :: "DataFrame \<Rightarrow> string \<Rightarrow> pyerror + string list" where
  "getitem df c = (case map_of (df_columns df) c of None \<Rightarrow> Inl KeyError | Some vs \<Rightarrow> Inr vs)"

text \<open>
  \<^verbatim>\<open>metadata.loc[ids]\<close> with a list of labels: the rows carrying each label, in the order of
  the list (every such row, should the index repeat a label); \<^verbatim>\<open>KeyError\<close> when a label is
  not in the index.
\<close>

definition positions :: "string list \<Rightarrow> string \<Rightarrow> nat list" where
  "positions idx i = filter (\<lambda>p. idx ! p = i) [0..<length idx]"

definition take_rows :: "DataFrame \<Rightarrow> nat list \<Rightarrow> DataFrame" where
  "take_rows df ps =
     \<lparr>df_index = map (\<lambda>p. df_index df ! p) ps,
      df_columns = map (\<lambda>(c, vs). (c, map (\<lambda>p. vs ! p) ps)) (df_columns df)\<rparr>"

definition loc :: "DataFrame \<Rightarrow> string list \<Rightarrow> pyerror + DataFrame" where
  "loc df ids =
     (if \<exists>i \<in> set ids. i \<notin> set (df_index df) then Inl KeyError
      else Inr (take_rows df (concat (map (positions (df_index df)) ids))))"

section \<open>Model objects\<close>

text \<open>
  The values of the numeric data dictionary, and the model object: the attributes set by the
  constructors of the base classes that this module reads (\<^verbatim>\<open>sample_names\<close>,
  \<^verbatim>\<open>feature_names\<close>), the data dictionary filled by \<^verbatim>\<open>add_parameters\<close> and the
  specification stored by \<^verbatim>\<open>specify_model\<close>. Dictionaries are association lists in the order
  of the source's dictionary displays.
\<close>

datatype dictval =
    DInt int
  | DFloat npfloat
  | DIntArray "int list"
  | DFloatArray "npfloat list"

record Model =
  sample_names :: "string list"
  feature_names :: "string list"
  dat :: "(string \<times> dictval) list"
  params :: "string list"
  dims :: "(string \<times> string list) list"
  coords :: "(string \<times> pyval list) list"
  include_observed_data :: bool
  posterior_predictive :: string
  log_likelihood :: string

text \<open>
  The base classes belong to the library \<^verbatim>\<open>birdman\<close>. Both constructors keep the table's
  sample ids; \<^verbatim>\<open>TableModel\<close> keeps the feature ids too, and \<^verbatim>\<open>SingleFeatureModel\<close> reads the
  counts of \<^verbatim>\<open>feature_id\<close> from the table, which raises \<^verbatim>\<open>UnknownIDError\<close> for an id the
  table does not have. The sampler settings (\<^verbatim>\<open>num_iter\<close>, \<^verbatim>\<open>num_warmup\<close>, \<^verbatim>\<open>chains\<close>,
  \<^verbatim>\<open>seed\<close>) and the unused \<^verbatim>\<open>beta_s\<close>, \<^verbatim>\<open>alpha_s\<close> play no part in the binding.
\<close>

definition TableModel_init :: "Table \<Rightarrow> pyerror + Model" where
  "TableModel_init table =
     Inr \<lparr>sample_names = sample_ids table, feature_names = observation_ids table, dat = [],
          params = [], dims = [], coords = [], include_observed_data = False,
          posterior_predictive = [], log_likelihood = []\<rparr>"

definition SingleFeatureModel_init :: "Table \<Rightarrow> string \<Rightarrow> pyerror + Model" where
  "SingleFeatureModel_init table feature_id =
     (if feature_id \<notin> set (observation_ids table) then Inl UnknownIDError
      else Inr \<lparr>sample_names = sample_ids table, feature_names = [], dat = [],
                params = [], dims = [], coords = [], include_observed_data = False,
                posterior_predictive = [], log_likelihood = []\<rparr>)"

definition add_parameters :: "Model \<Rightarrow> (string \<times> dictval) list \<Rightarrow> Model" where
  "add_parameters self param_dict = self\<lparr>dat := param_dict\<rparr>"

definition specify_model ::
  "Model \<Rightarrow> string list \<Rightarrow> (string \<times> string list) list \<Rightarrow> (string \<times> pyval list) list \<Rightarrow>
   bool \<Rightarrow> string \<Rightarrow> string \<Rightarrow> Model" where
  "specify_model self ps ds cs obs pp ll =
     self\<lparr>params := ps, dims := ds, coords := cs, include_observed_data := obs,
          posterior_predictive := pp, log_likelihood := ll\<rparr>"

text \<open>Small pieces of Python used by the constructors.\<close>

fun first :: "'a list \<Rightarrow> pyerror + 'a" where
  "first [] = Inl IndexError"
| "first (v # vs) = Inr v"

definition get_classes :: "LabelEncoder \<Rightarrow> pyerror + string list" where
  "get_classes encoder = (case classes encoder of None \<Rightarrow> Inl NotFittedError | Some cs \<Rightarrow> Inr cs)"

text \<open>\<^verbatim>\<open>np.log(1. / len(table.ids(axis='observation')))\<close>; the division raises on zero.\<close>

definition control_loc_of :: "Table \<Rightarrow> pyerror + npfloat" where
  "control_loc_of table =
     (let n = length (observation_ids table)
      in if n = 0 then Inl ZeroDivisionError else Inr (Finite (ln (1 / real n))))"

text \<open>
  A Python \<^verbatim>\<open>set\<close> holds each value once and iterates in an order fixed by the hashes of its
  elements, which for strings changes from one interpreter run to the next. The distinct
  values are kept as a list, and the order in which \<^verbatim>\<open>list(s)\<close> returns them is a parameter
  \<open>set_iter\<close> of the constructors; it only rearranges its argument.
\<close>

definition py_set :: "pyval list \<Rightarrow> pyval list" where
  "py_set xs = remdups xs"

definition set_minus :: "pyval list \<Rightarrow> pyval list \<Rightarrow> pyval list" where
  "set_minus s t = filter (\<lambda>v. v \<notin> set t) s"

definition opt_val :: "string option \<Rightarrow> pyval" where
  "opt_val r = (case r of None \<Rightarrow> PNone | Some l \<Rightarrow> PStr l)"

text \<open>\<^verbatim>\<open>str\<close> of a value, as an f-string formats it.\<close>

fun str_nat :: "nat \<Rightarrow> string" where
  "str_nat n = (if n < 10 then [''0123456789'' ! n]
                else str_nat (n div 10) @ [''0123456789'' ! (n mod 10)])"

definition str_int :: "int \<Rightarrow> string" where
  "str_int i = (if i < 0 then ''-'' @ str_nat (nat (- i)) else str_nat (nat i))"

fun py_str :: "pyval \<Rightarrow> string" where
  "py_str (PStr l) = l"
| "py_str (PInt i) = str_int i"
| "py_str PNone = ''None''"

section \<open>The three model constructors\<close>

text \<open>
  \<^verbatim>\<open>DiseaseSingle.__init__\<close> (lines 54-147), statement by statement. An exception of any
  statement ends the construction.
\<close>

definition DiseaseSingle_init ::
  "Table \<Rightarrow> string \<Rightarrow> DataFrame \<Rightarrow> string \<Rightarrow> string \<Rightarrow> string \<Rightarrow> string \<Rightarrow>
   dictval \<Rightarrow> dictval \<Rightarrow> string \<Rightarrow> pyerror + Model" where
  "DiseaseSingle_init table feature_id metadata category_column match_ids_column batch_column
     reference diff_scale disp_scale normalization =
   and_then (SingleFeatureModel_init table feature_id) (\<lambda>self.
   and_then (loc metadata (sample_ids table)) (\<lambda>metadata.
   and_then (getitem metadata match_ids_column) (\<lambda>match_values.
   and_then (relabel match_values) (\<lambda>(case_ids, case_encoder).
   and_then (getitem metadata batch_column) (\<lambda>batch_values.
   and_then (relabel batch_values) (\<lambda>(batch_ids, batch_encoder).
   and_then (getitem metadata category_column) (\<lambda>category_values.
   and_then (relabel category_values) (\<lambda>(disease_ids, disease_encoder).
   and_then (get_classes disease_encoder) (\<lambda>disease.
   and_then (normalization_func table normalization) (\<lambda>slog.
   let C = length (df_index metadata) div 2;
       N = length (df_index metadata);
       B = length (np_unique batch_ids);
       D = length (np_unique disease_ids)
   in
   and_then (control_loc_of table) (\<lambda>control_loc.
   let control_scale = 3;
       batch_scale = 3
   in
   and_then (transform disease_encoder [reference]) (\<lambda>reference_ids.
   and_then (first reference_ids) (\<lambda>reference_id.
   let param_dict =
         [(''C'', DInt (int C)),
          (''N'', DInt (int N)),
          (''B'', DInt (int B)),
          (''D'', DInt (int D)),
          (''slog'', DFloatArray slog),
          (''reference'', DInt (reference_id + 1)),
          (''disease_ids'', DIntArray (map (\<lambda>i. i + 1) disease_ids)),
          (''cc_ids'', DIntArray (map (\<lambda>i. i + 1) case_ids)),
          (''batch_ids'', DIntArray (map (\<lambda>i. i + 1) batch_ids)),
          (''control_loc'', DFloat control_loc),
          (''control_scale'', DInt control_scale),
          (''batch_scale'', DInt batch_scale),
          (''diff_scale'', diff_scale),
          (''disp_scale'', disp_scale)]
   in
   Inr (specify_model (add_parameters self param_dict)
          [''a0'', ''a1'', ''a2'', ''diff'', ''disease_disp'']
          [(''a0'', [''feature'']),
           (''a1'', [''feature'']),
           (''a2'', [''feature'']),
           (''diff'', [''feature'', ''disease_ids'']),
           (''disp_scale'', [''feature'', ''disease_ids'']),
           (''log_lhood'', [''tbl_sample'']),
           (''y_predict'', [''tbl_sample'']),
           (''y'', [''tbl_sample''])]
          [(''disease_ids'', map PStr disease),
           (''feature'', [PStr ''log_fold_change'']),
           (''tbl_sample'', map PStr (sample_names self))]
          True ''y_predict'' ''log_lhood''))))))))))))))"

text \<open>
  \<^verbatim>\<open>DESeq2.__init__\<close> (lines 152-205). The metadata is used as it comes: there is no
  \<^verbatim>\<open>metadata.loc[table.ids()]\<close> here. Line 174 computes \<^verbatim>\<open>other\<close> from the argument
  \<^verbatim>\<open>reference\<close>, before line 176 replaces a missing reference by the first category value.
\<close>

definition group_codes :: "string list \<Rightarrow> string \<Rightarrow> int list" where
  "group_codes cats reference = map (\<lambda>c. (if c \<noteq> reference then 1 else 0) + 1) cats"

definition DESeq2_init ::
  "(pyval list \<Rightarrow> pyval list) \<Rightarrow> Table \<Rightarrow> DataFrame \<Rightarrow> string \<Rightarrow> string option \<Rightarrow> string \<Rightarrow>
   pyerror + Model" where
  "DESeq2_init set_iter table metadata category_column reference normalization =
   and_then (TableModel_init table) (\<lambda>self.
   and_then (getitem metadata category_column) (\<lambda>cats.
   and_then (first (set_iter (set_minus (py_set (map PStr cats)) [opt_val reference]))) (\<lambda>other.
   and_then (case reference of None \<Rightarrow> first cats | Some r \<Rightarrow> Inr r) (\<lambda>reference.
   let cats = group_codes cats reference
   in
   and_then (normalization_func table normalization) (\<lambda>slog.
   and_then (control_loc_of table) (\<lambda>control_loc.
   let control_scale = 5;
       param_dict =
         [(''slog'', DFloatArray slog),
          (''M'', DIntArray cats),
          (''control_loc'', DFloat control_loc),
          (''control_scale'', DInt control_scale)]
   in
   Inr (specify_model (add_parameters self param_dict)
          [''intercept'', ''beta'', ''alpha'']
          [(''intercept'', [''feature'']),
           (''beta'', [''feature'']),
           (''alpha'', [''group'', ''feature'']),
           (''log_lhood'', [''tbl_sample'', ''feature'']),
           (''y_predict'', [''tbl_sample'', ''feature''])]
          [(''groups'', [PStr reference, other]),
           (''features'', map PStr (feature_names self)),
           (''tbl_samples'', map PStr (sample_names self))]
          True ''y_predict'' ''log_lhood'')))))))"

text \<open>
  \<^verbatim>\<open>SingleDESeq2.__init__\<close> (lines 210-265). As in \<^verbatim>\<open>DESeq2\<close>, with one more statement:
  line 237 computes \<^verbatim>\<open>other\<close> again, after line 236 has replaced \<^verbatim>\<open>cats\<close> by the array of
  group codes, so the set it takes the first element of is a set of integers.
\<close>

definition SingleDESeq2_init ::
  "(pyval list \<Rightarrow> pyval list) \<Rightarrow> Table \<Rightarrow> string \<Rightarrow> DataFrame \<Rightarrow> string \<Rightarrow> string option \<Rightarrow>
   string \<Rightarrow> pyerror + Model" where
  "SingleDESeq2_init set_iter table feature_id metadata category_column reference normalization =
   and_then (SingleFeatureModel_init table feature_id) (\<lambda>self.
   and_then (getitem metadata category_column) (\<lambda>cats.
   and_then (first (set_iter (set_minus (py_set (map PStr cats)) [opt_val reference]))) (\<lambda>other.
   and_then (case reference of None \<Rightarrow> first cats | Some r \<Rightarrow> Inr r) (\<lambda>reference.
   let cats = group_codes cats reference
   in
   and_then (first (set_iter (set_minus (py_set (map PInt cats)) [PStr reference]))) (\<lambda>other.
   and_then (normalization_func table normalization) (\<lambda>slog.
   and_then (control_loc_of table) (\<lambda>control_loc.
   let control_scale = 1;
       param_dict =
         [(''slog'', DFloatArray slog),
          (''M'', DIntArray cats),
          (''control_loc'', DFloat control_loc),
          (''control_scale'', DInt control_scale)]
   in
   Inr (specify_model (add_parameters self param_dict)
          [''intercept'', ''beta'', ''alpha'']
          [(''intercept'', [''feature'']),
           (''beta'', [''feature'']),
           (''alpha'', [''group'']),
           (''log_lhood'', [''tbl_sample'']),
           (''y_predict'', [''tbl_sample''])]
          [(''groups'', [PStr reference, other]),
           (''features'', [PStr (''log('' @ py_str other @ '' / '' @ reference @ '')'')]),
           (''tbl_samples'', map PStr (sample_names self))]
          True ''y_predict'' ''log_lhood''))))))))"

text \<open>The inputs used to run the constructors on concrete data.\<close>

definition table22 :: Table where
  "table22 = \<lparr>sample_ids = [''s1'', ''s2''], observation_ids = [''f1'', ''f2''],
              matrix_data = [[10, 0], [0, 10]]\<rparr>"

definition table_zero :: Table where
  "table_zero = \<lparr>sample_ids = [''s1'', ''s2''], observation_ids = [''f1''],
                matrix_data = [[0, 3]]\<rparr>"

definition table44 :: Table where
  "table44 = \<lparr>sample_ids = [''s1'', ''s2'', ''s3'', ''s4''], observation_ids = [''f1'', ''f2''],
              matrix_data = [[10, 0, 5, 5], [0, 10, 5, 5]]\<rparr>"

definition metadata4 :: DataFrame where
  "metadata4 =
     \<lparr>df_index = [''s4'', ''s3'', ''s2'', ''s1''],
      df_columns =
        [(''Status'', [''DiseaseA'', ''Healthy'', ''DiseaseA'', ''Healthy'']),
         (''match_ids_column'', [''m2'', ''m2'', ''m1'', ''m1'']),
         (''batch_column'', [''b1'', ''b1'', ''b1'', ''b1''])]\<rparr>"

definition metadata2 :: DataFrame where
  "metadata2 =
     \<lparr>df_index = [''s1'', ''s2''],
      df_columns = [(''Status'', [''Healthy'', ''Sick''])]\<rparr>"

definition metadata_other_samples :: DataFrame where
  "metadata_other_samples =
     \<lparr>df_index = [''s2'', ''s3''],
      df_columns = [(''Status'', [''Healthy'', ''Sick''])]\<rparr>"



section \<open>Properties of the encoder\<close>

lemma and_then_Inr [simp]: "and_then (Inr x) f = f x"
  by (simp add: and_then_def)

lemma and_then_Inl [simp]: "and_then (Inl e) f = Inl e"
  by (simp add: and_then_def)

lemma and_then_eq_Inr:
  "and_then m f = Inr r \<longleftrightarrow> (\<exists>x. m = Inr x \<and> f x = Inr r)"
  by (cases m) simp_all

lemma set_np_unique [simp]: "set (np_unique x) = set x"
  by (simp add: np_unique_def)

lemma sorted_np_unique: "sorted (np_unique x)"
  by (simp add: np_unique_def)

lemma distinct_np_unique: "distinct (np_unique x)"
  by (simp add: np_unique_def)

lemma length_np_unique: "length (np_unique x) = card (set x)"
  by (simp add: np_unique_def length_remdups_card_conv)

lemma below_nth:
  "sorted cs \<Longrightarrow> distinct cs \<Longrightarrow> v \<in> set cs \<Longrightarrow>
   cs ! length (filter (\<lambda>c. c < v) cs) = v"
proof (induction cs)
  case Nil
  then show ?case by simp
next
  case (Cons c cs)
  show ?case
  proof (cases "c = v")
    case True
    from Cons.prems have "\<forall>d \<in> set cs. v < d"
      using True by (auto simp: le_less)
    then have "filter (\<lambda>d. d < v) cs = []"
      by (auto simp: filter_empty_conv)
    with True show ?thesis by simp
  next
    case False
    with Cons.prems have "v \<in> set cs" and "c < v"
      by auto
    with Cons show ?thesis by simp
  qed
qed

lemma below_less_length:
  "sorted cs \<Longrightarrow> distinct cs \<Longrightarrow> v \<in> set cs \<Longrightarrow>
   length (filter (\<lambda>c. c < v) cs) < length cs"
proof (induction cs)
  case Nil
  then show ?case by simp
next
  case (Cons c cs)
  show ?case
  proof (cases "c = v")
    case True
    from Cons.prems have "\<forall>d \<in> set cs. v < d"
      using True by (auto simp: le_less)
    then have "filter (\<lambda>d. d < v) cs = []"
      by (auto simp: filter_empty_conv)
    with True show ?thesis by simp
  next
    case False
    with Cons.prems have "v \<in> set cs" and "c < v"
      by auto
    with Cons show ?thesis by simp
  qed
qed

lemma searchsorted_nth:
  assumes "v \<in> set x"
  shows "np_unique x ! nat (searchsorted (np_unique x) v) = v"
  using below_nth [OF sorted_np_unique distinct_np_unique, of v x] assms
  by (simp add: searchsorted_def)

lemma searchsorted_range:
  assumes "v \<in> set x"
  shows "0 \<le> searchsorted (np_unique x) v \<and> searchsorted (np_unique x) v < int (card (set x))"
  using below_less_length [OF sorted_np_unique distinct_np_unique, of v x] assms
  by (simp add: searchsorted_def length_np_unique)

lemma relabel_eq:
  "relabel x = Inr (map (searchsorted (np_unique x)) x, \<lparr>classes = Some (np_unique x)\<rparr>)"
  by (simp add: relabel_def fit_def transform_def LabelEncoder_new_def)

text \<open>
  Claim C7. For every label sequence, \<^verbatim>\<open>relabel\<close> returns (it raises nothing), every id is
  a valid index into the classes, the classes at the ids are the labels again
  (\<^verbatim>\<open>classes[ids[i]] == labels[i]\<close> at every position), and the result does not depend on
  anything but the labels: fitting any encoder, whatever it held before, on the same labels and
  transforming them gives the same ids and the same classes as \<^verbatim>\<open>relabel\<close>.
\<close>

theorem relabel_round_trip:
  "\<exists>ids cs. relabel x = Inr (ids, \<lparr>classes = Some cs\<rparr>)
     \<and> length ids = length x
     \<and> (\<forall>i < length x. 0 \<le> ids ! i \<and> nat (ids ! i) < length cs \<and> cs ! nat (ids ! i) = x ! i)
     \<and> (\<forall>e. transform (fit e x) x = Inr ids \<and> classes (fit e x) = Some cs)"
proof -
  let ?cs = "np_unique x"
  let ?ids = "map (searchsorted ?cs) x"
  have "\<forall>i < length x. 0 \<le> ?ids ! i \<and> nat (?ids ! i) < length ?cs \<and> ?cs ! nat (?ids ! i) = x ! i"
  proof (intro allI impI)
    fix i assume "i < length x"
    then have mem: "x ! i \<in> set x" by simp
    from searchsorted_range [OF mem] searchsorted_nth [OF mem] \<open>i < length x\<close>
    show "0 \<le> ?ids ! i \<and> nat (?ids ! i) < length ?cs \<and> ?cs ! nat (?ids ! i) = x ! i"
      by (simp add: length_np_unique nat_less_iff)
  qed
  moreover have "\<forall>e. transform (fit e x) x = Inr ?ids \<and> classes (fit e x) = Some ?cs"
    by (simp add: fit_def transform_def)
  ultimately show ?thesis
    unfolding relabel_eq by simp
qed

theorem relabel_round_trip_witness:
  "\<exists>ids cs. relabel [''b'', ''a'', ''b''] = Inr (ids, \<lparr>classes = Some cs\<rparr>)
     \<and> length ids = 3
     \<and> cs ! nat (ids ! 0) = ''b'' \<and> cs ! nat (ids ! 1) = ''a'' \<and> cs ! nat (ids ! 2) = ''b''"
proof -
  from relabel_round_trip [of "[''b'', ''a'', ''b'']"]
  obtain ids cs where r: "relabel [''b'', ''a'', ''b''] = Inr (ids, \<lparr>classes = Some cs\<rparr>)"
    and l: "length ids = length [''b'', ''a'', ''b'']"
    and n: "\<forall>i < length [''b'', ''a'', ''b''].
              0 \<le> ids ! i \<and> nat (ids ! i) < length cs \<and> cs ! nat (ids ! i) = [''b'', ''a'', ''b''] ! i"
    by blast
  from n have "cs ! nat (ids ! 0) = ''b''" "cs ! nat (ids ! 1) = ''a''" "cs ! nat (ids ! 2) = ''b''"
    by simp_all
  with r l show ?thesis by simp
qed

section \<open>Normalization\<close>

text \<open>
  Claim C3. In mode \<^verbatim>\<open>'median_ratios'\<close> the normalization is specified to return one offset
  per sample, the median over features of \<^verbatim>\<open>log(K / Km)\<close>. The source does not: for every
  table, the call raises \<^verbatim>\<open>NameError\<close> at line 15, where \<^verbatim>\<open>counts\<close> is not defined, and
  returns no offsets at all.
\<close>

theorem median_ratios_raises:
  "normalization_func table ''median_ratios'' = Inl NameError"
  by (simp add: normalization_func_def)

text \<open>
  Claim C4, as stated, has the normalization in mode \<^verbatim>\<open>'depth'\<close> fail whenever a sample's
  total count is zero. It does not fail: for the one-feature table with counts \<open>0\<close> and
  \<open>3\<close> it returns \<^verbatim>\<open>-inf\<close> for the first sample and \<open>ln 3\<close> for the second.
\<close>

theorem depth_zero_total_no_error:
  "table_sum_sample table_zero = [0, 3]
   \<and> normalization_func table_zero ''depth'' = Inr [NegInf, Finite (ln 3)]"
  by (simp add: normalization_func_def table_sum_sample_def sample_total_def table_zero_def
        np_log_def)

text \<open>
  Claim C4, amended. For every count table, normalization in mode \<^verbatim>\<open>'depth'\<close> returns, and
  raises nothing: one offset per sample, in table sample order; the offset of a sample with a
  positive total count is the natural logarithm of that total, the offset of a sample whose
  total count is zero is \<^verbatim>\<open>-inf\<close>; so a table whose samples all total a positive constant
  \<open>T\<close> yields offsets all equal to \<open>ln T\<close>.
\<close>

theorem depth_offsets:
  "\<exists>slog. normalization_func table ''depth'' = Inr slog
     \<and> length slog = length (sample_ids table)
     \<and> (\<forall>j < length (sample_ids table).
           slog ! j = (if sample_total table j = 0 then NegInf
                       else Finite (ln (real (sample_total table j)))))
     \<and> (\<forall>T. 0 < T \<and> (\<forall>j < length (sample_ids table). sample_total table j = T)
           \<longrightarrow> slog = replicate (length (sample_ids table)) (Finite (ln (real T))))"
proof -
  let ?slog = "map np_log (table_sum_sample table)"
  have "normalization_func table ''depth'' = Inr ?slog"
    by (simp add: normalization_func_def)
  moreover have "length ?slog = length (sample_ids table)"
    by (simp add: table_sum_sample_def)
  moreover have "\<forall>j < length (sample_ids table).
           ?slog ! j = (if sample_total table j = 0 then NegInf
                       else Finite (ln (real (sample_total table j))))"
    by (simp add: table_sum_sample_def np_log_def)
  moreover have "\<forall>T. 0 < T \<and> (\<forall>j < length (sample_ids table). sample_total table j = T)
           \<longrightarrow> ?slog = replicate (length (sample_ids table)) (Finite (ln (real T)))"
  proof (intro allI impI)
    fix T assume T: "0 < T \<and> (\<forall>j < length (sample_ids table). sample_total table j = T)"
    then have "map (\<lambda>j. np_log (sample_total table j)) [0..<length (sample_ids table)]
                 = map (\<lambda>j. Finite (ln (real T))) [0..<length (sample_ids table)]"
      by (intro map_cong) (simp_all add: np_log_def)
    then show "?slog = replicate (length (sample_ids table)) (Finite (ln (real T)))"
      by (simp add: table_sum_sample_def map_replicate_const comp_def)
  qed
  ultimately show ?thesis by blast
qed

theorem depth_offsets_witness:
  "normalization_func table22 ''depth'' = Inr [Finite (ln 10), Finite (ln 10)]"
proof -
  from depth_offsets [of table22]
  obtain slog where r: "normalization_func table22 ''depth'' = Inr slog"
    and c: "\<forall>T. 0 < T \<and> (\<forall>j < length (sample_ids table22). sample_total table22 j = T)
           \<longrightarrow> slog = replicate (length (sample_ids table22)) (Finite (ln (real T)))"
    by blast
  have "\<forall>j < length (sample_ids table22). sample_total table22 j = 10"
    by (simp add: table22_def sample_total_def less_Suc_eq)
  moreover have "(0::nat) < 10" by simp
  ultimately have "slog = replicate (length (sample_ids table22)) (Finite (ln (real 10)))"
    using c [THEN spec, of 10] by blast
  with r show ?thesis by (simp add: table22_def numeral_2_eq_2)
qed

section \<open>What a successful \<^verbatim>\<open>DiseaseSingle\<close> construction went through\<close>

lemma DiseaseSingle_init_Inr:
  assumes "DiseaseSingle_init table feature_id metadata category_column match_ids_column
             batch_column reference diff_scale disp_scale normalization = Inr m"
  shows "\<exists>self aligned mvals bvals cvals slog cl.
           SingleFeatureModel_init table feature_id = Inr self
         \<and> loc metadata (sample_ids table) = Inr aligned
         \<and> getitem aligned match_ids_column = Inr mvals
         \<and> getitem aligned batch_column = Inr bvals
         \<and> getitem aligned category_column = Inr cvals
         \<and> normalization_func table normalization = Inr slog
         \<and> control_loc_of table = Inr cl
         \<and> reference \<in> set cvals
         \<and> dat m =
             [(''C'', DInt (int (length (df_index aligned) div 2))),
              (''N'', DInt (int (length (df_index aligned)))),
              (''B'', DInt (int (length (np_unique (map (searchsorted (np_unique bvals)) bvals))))),
              (''D'', DInt (int (length (np_unique (map (searchsorted (np_unique cvals)) cvals))))),
              (''slog'', DFloatArray slog),
              (''reference'', DInt (searchsorted (np_unique cvals) reference + 1)),
              (''disease_ids'', DIntArray (map (\<lambda>i. i + 1) (map (searchsorted (np_unique cvals)) cvals))),
              (''cc_ids'', DIntArray (map (\<lambda>i. i + 1) (map (searchsorted (np_unique mvals)) mvals))),
              (''batch_ids'', DIntArray (map (\<lambda>i. i + 1) (map (searchsorted (np_unique bvals)) bvals))),
              (''control_loc'', DFloat cl),
              (''control_scale'', DInt 3),
              (''batch_scale'', DInt 3),
              (''diff_scale'', diff_scale),
              (''disp_scale'', disp_scale)]
         \<and> params m = [''a0'', ''a1'', ''a2'', ''diff'', ''disease_disp'']
         \<and> dims m =
             [(''a0'', [''feature'']),
              (''a1'', [''feature'']),
              (''a2'', [''feature'']),
              (''diff'', [''feature'', ''disease_ids'']),
              (''disp_scale'', [''feature'', ''disease_ids'']),
              (''log_lhood'', [''tbl_sample'']),
              (''y_predict'', [''tbl_sample'']),
              (''y'', [''tbl_sample''])]
         \<and> coords m =
             [(''disease_ids'', map PStr (np_unique cvals)),
              (''feature'', [PStr ''log_fold_change'']),
              (''tbl_sample'', map PStr (sample_ids table))]"
  using assms unfolding DiseaseSingle_init_def
  by (auto simp: and_then_eq_Inr relabel_eq get_classes_def transform_def Let_def
        specify_model_def add_parameters_def SingleFeatureModel_init_def
        split: if_splits)





section \<open>Running \<^verbatim>\<open>DiseaseSingle\<close> on four samples\<close>

lemma loc_metadata4:
  "loc metadata4 [''s1'', ''s2'', ''s3'', ''s4''] =
     Inr \<lparr>df_index = [''s1'', ''s2'', ''s3'', ''s4''],
          df_columns =
            [(''Status'', [''Healthy'', ''DiseaseA'', ''Healthy'', ''DiseaseA'']),
             (''match_ids_column'', [''m1'', ''m1'', ''m2'', ''m2'']),
             (''batch_column'', [''b1'', ''b1'', ''b1'', ''b1''])]\<rparr>"
  by (simp add: loc_def metadata4_def take_rows_def positions_def)

lemma relabel_status4:
  "relabel [''Healthy'', ''DiseaseA'', ''Healthy'', ''DiseaseA'']
     = Inr ([1, 0, 1, 0], \<lparr>classes = Some [''DiseaseA'', ''Healthy'']\<rparr>)"
  by (simp add: relabel_eq np_unique_def searchsorted_def)

lemma DiseaseSingle_init_runs:
  "\<exists>m. DiseaseSingle_init table44 ''f1'' metadata4 ''Status'' ''match_ids_column''
          ''batch_column'' ''Healthy'' (DInt 1) (DFloat (Finite (1 / 10))) ''depth'' = Inr m"
  by (simp add: DiseaseSingle_init_def SingleFeatureModel_init_def loc_metadata4 getitem_def
        relabel_eq get_classes_def normalization_func_def control_loc_of_def transform_def
        table44_def)

section \<open>One-based categorical ids and the reference index\<close>




section \<open>The specification declared by \<^verbatim>\<open>DiseaseSingle\<close>\<close>

text \<open>
  Claim C8. Every disease-model instance is specified to name the parameters \<^verbatim>\<open>a0\<close>,
  \<^verbatim>\<open>a1\<close>, \<^verbatim>\<open>a2\<close>, \<^verbatim>\<open>diff\<close>, \<^verbatim>\<open>disease_disp\<close>, to give both \<^verbatim>\<open>diff\<close> and
  \<^verbatim>\<open>disease_disp\<close> the axes (feature, disease category), and to label the disease axis by
  the encoder's disease classes. The source does so for the names, for \<^verbatim>\<open>diff\<close> and for the
  labels, but not for \<^verbatim>\<open>disease_disp\<close>: the \<^verbatim>\<open>dims\<close> dictionary (line 132) gives the axis
  pair to the key \<^verbatim>\<open>disp_scale\<close>, which is no parameter but the prior scale of the data
  dictionary, and has no entry for \<^verbatim>\<open>disease_disp\<close>.
\<close>

theorem DiseaseSingle_specification:
  assumes "DiseaseSingle_init table feature_id metadata category_column match_ids_column
             batch_column reference diff_scale disp_scale normalization = Inr m"
  shows "params m = [''a0'', ''a1'', ''a2'', ''diff'', ''disease_disp'']
       \<and> map_of (dims m) ''diff'' = Some [''feature'', ''disease_ids'']
       \<and> map_of (dims m) ''disease_disp'' = None
       \<and> map_of (dims m) ''disp_scale'' = Some [''feature'', ''disease_ids'']
       \<and> map_of (dat m) ''disp_scale'' = Some disp_scale
       \<and> (\<exists>aligned cvals disease_ids cs.
             loc metadata (sample_ids table) = Inr aligned
           \<and> getitem aligned category_column = Inr cvals
           \<and> relabel cvals = Inr (disease_ids, \<lparr>classes = Some cs\<rparr>)
           \<and> map_of (coords m) ''disease_ids'' = Some (map PStr cs))"
proof -
  from DiseaseSingle_init_Inr [OF assms]
  obtain aligned cvals where
        al: "loc metadata (sample_ids table) = Inr aligned"
    and cv: "getitem aligned category_column = Inr cvals"
    and p: "params m = [''a0'', ''a1'', ''a2'', ''diff'', ''disease_disp'']"
    and d: "map_of (dims m) ''diff'' = Some [''feature'', ''disease_ids'']"
           "map_of (dims m) ''disease_disp'' = None"
           "map_of (dims m) ''disp_scale'' = Some [''feature'', ''disease_ids'']"
           "map_of (dat m) ''disp_scale'' = Some disp_scale"
    and c: "map_of (coords m) ''disease_ids'' = Some (map PStr (np_unique cvals))"
    by fastforce
  from al cv c relabel_eq [of cvals]
  have "\<exists>aligned cvals disease_ids cs.
             loc metadata (sample_ids table) = Inr aligned
           \<and> getitem aligned category_column = Inr cvals
           \<and> relabel cvals = Inr (disease_ids, \<lparr>classes = Some cs\<rparr>)
           \<and> map_of (coords m) ''disease_ids'' = Some (map PStr cs)"
    by blast
  with p d show ?thesis by blast
qed

theorem DiseaseSingle_specification_witness:
  "\<exists>m. DiseaseSingle_init table44 ''f1'' metadata4 ''Status'' ''match_ids_column''
          ''batch_column'' ''Healthy'' (DInt 1) (DFloat (Finite (1 / 10))) ''depth'' = Inr m
       \<and> params m = [''a0'', ''a1'', ''a2'', ''diff'', ''disease_disp'']
       \<and> map_of (dims m) ''disease_disp'' = None
       \<and> map_of (coords m) ''disease_ids'' = Some [PStr ''DiseaseA'', PStr ''Healthy'']"
proof -
  from DiseaseSingle_init_runs obtain m where
    m: "DiseaseSingle_init table44 ''f1'' metadata4 ''Status'' ''match_ids_column''
          ''batch_column'' ''Healthy'' (DInt 1) (DFloat (Finite (1 / 10))) ''depth'' = Inr m"
    by blast
  from DiseaseSingle_specification [OF m]
  obtain aligned cvals disease_ids cs where
        p: "params m = [''a0'', ''a1'', ''a2'', ''diff'', ''disease_disp'']"
    and d: "map_of (dims m) ''disease_disp'' = None"
    and al: "loc metadata4 (sample_ids table44) = Inr aligned"
    and cv: "getitem aligned ''Status'' = Inr cvals"
    and rl: "relabel cvals = Inr (disease_ids, \<lparr>classes = Some cs\<rparr>)"
    and c: "map_of (coords m) ''disease_ids'' = Some (map PStr cs)"
    by blast
  from al cv have "cvals = [''Healthy'', ''DiseaseA'', ''Healthy'', ''DiseaseA'']"
    by (auto simp: table44_def loc_metadata4 getitem_def)
  with rl have "cs = [''DiseaseA'', ''Healthy'']"
    by (simp add: relabel_status4)
  with m p d c show ?thesis by simp
qed

section \<open>A reference label that is not observed\<close>




section \<open>Alignment of the metadata with the table\<close>

text \<open>
  What line 81 of \<^verbatim>\<open>DiseaseSingle\<close> achieves: over a metadata index without repeated
  labels, the reindexed frame has exactly the table's samples as its index, in the table's
  order; and a table sample that the metadata lacks ends the construction with \<^verbatim>\<open>KeyError\<close>.
\<close>

lemma filter_eq_single:
  "distinct idx \<Longrightarrow> i \<in> set idx \<Longrightarrow> filter (\<lambda>x. x = i) idx = [i]"
proof (induction idx)
  case Nil
  then show ?case by simp
next
  case (Cons a idx)
  show ?case
  proof (cases "a = i")
    case True
    with Cons.prems have "\<forall>x \<in> set idx. x \<noteq> i" by auto
    then have "filter (\<lambda>x. x = i) idx = []" by (simp add: filter_empty_conv)
    with True show ?thesis by simp
  next
    case False
    with Cons show ?thesis by simp
  qed
qed

lemma nth_positions:
  "map (\<lambda>p. idx ! p) (positions idx i) = filter (\<lambda>x. x = i) idx"
proof -
  have "filter (\<lambda>x. x = i) (map (\<lambda>p. idx ! p) [0..<length idx])
          = map (\<lambda>p. idx ! p) (positions idx i)"
    by (simp add: positions_def filter_map comp_def)
  then show ?thesis by (simp add: map_nth)
qed

lemma loc_index:
  assumes "distinct (df_index df)" and "loc df ids = Inr aligned"
  shows "df_index aligned = ids"
proof -
  from assms(2) have mem: "\<forall>i \<in> set ids. i \<in> set (df_index df)"
    and al: "aligned = take_rows df (concat (map (positions (df_index df)) ids))"
    by (auto simp: loc_def split: if_splits)
  have "map (\<lambda>p. df_index df ! p) (concat (map (positions (df_index df)) ids))
          = concat (map (\<lambda>i. [i]) ids)"
    unfolding map_concat map_map comp_def
    using mem assms(1) by (intro arg_cong [where f = concat] map_cong)
      (simp_all add: nth_positions filter_eq_single)
  with al show ?thesis by (simp add: take_rows_def)
qed

lemma DiseaseSingle_missing_sample:
  assumes "feature_id \<in> set (observation_ids table)"
    and "\<exists>i \<in> set (sample_ids table). i \<notin> set (df_index metadata)"
  shows "DiseaseSingle_init table feature_id metadata category_column match_ids_column
           batch_column reference diff_scale disp_scale normalization = Inl KeyError"
  using assms by (simp add: DiseaseSingle_init_def SingleFeatureModel_init_def loc_def)

text \<open>
  Claim C2. Binding is specified to reindex the metadata to the table's sample order before
  anything else, and to fail when a sample of the table is absent from the metadata.
  \<^verbatim>\<open>DiseaseSingle\<close> does (line 81, \<^verbatim>\<open>metadata.loc[table.ids()]\<close>). \<^verbatim>\<open>DESeq2\<close> and
  \<^verbatim>\<open>SingleDESeq2\<close> do not: for a table with the samples \<open>s1\<close>, \<open>s2\<close> and a metadata
  with the rows \<open>s2\<close>, \<open>s3\<close>, where the reindexing raises \<^verbatim>\<open>KeyError\<close> for the absent
  \<open>s1\<close>, both constructors succeed, and the group codes \<^verbatim>\<open>M\<close> are those of the metadata
  rows \<open>s2\<close>, \<open>s3\<close>, in metadata order, next to offsets and sample names for \<open>s1\<close>,
  \<open>s2\<close>.
\<close>

theorem DESeq2_ignores_table_samples:
  "loc metadata_other_samples (sample_ids table22) = Inl KeyError
   \<and> (case DESeq2_init (\<lambda>ys. ys) table22 metadata_other_samples ''Status'' None ''depth'' of
        Inr m \<Rightarrow> sample_names m = [''s1'', ''s2'']
                 \<and> map_of (dat m) ''M'' = Some (DIntArray [1, 2])
      | Inl e \<Rightarrow> False)
   \<and> (case SingleDESeq2_init (\<lambda>ys. ys) table22 ''f1'' metadata_other_samples ''Status'' None
             ''depth'' of
        Inr m \<Rightarrow> sample_names m = [''s1'', ''s2'']
                 \<and> map_of (dat m) ''M'' = Some (DIntArray [1, 2])
      | Inl e \<Rightarrow> False)"
  by (simp add: loc_def DESeq2_init_def SingleDESeq2_init_def TableModel_init_def
        SingleFeatureModel_init_def table22_def metadata_other_samples_def getitem_def
        py_set_def set_minus_def opt_val_def group_codes_def normalization_func_def
        control_loc_of_def specify_model_def add_parameters_def)

section \<open>The two-group constructors\<close>


lemma SingleDESeq2_init_Inr:
  assumes "SingleDESeq2_init set_iter table feature_id metadata category_column reference
             normalization = Inr m"
  shows "\<exists>cats other0 other ref slog cl.
           getitem metadata category_column = Inr cats
         \<and> first (set_iter (set_minus (py_set (map PStr cats)) [opt_val reference])) = Inr other0
         \<and> (case reference of None \<Rightarrow> first cats | Some r \<Rightarrow> Inr r) = Inr ref
         \<and> first (set_iter (set_minus (py_set (map PInt (group_codes cats ref))) [PStr ref]))
             = Inr other
         \<and> normalization_func table normalization = Inr slog
         \<and> control_loc_of table = Inr cl
         \<and> sample_names m = sample_ids table
         \<and> dat m =
             [(''slog'', DFloatArray slog),
              (''M'', DIntArray (group_codes cats ref)),
              (''control_loc'', DFloat cl),
              (''control_scale'', DInt 1)]
         \<and> coords m =
             [(''groups'', [PStr ref, other]),
              (''features'', [PStr (''log('' @ py_str other @ '' / '' @ ref @ '')'')]),
              (''tbl_samples'', map PStr (sample_ids table))]"
  using assms unfolding SingleDESeq2_init_def
  by (auto simp: and_then_eq_Inr Let_def specify_model_def add_parameters_def
        SingleFeatureModel_init_def split: if_splits)

lemma first_Inr_mem: "first xs = Inr x \<Longrightarrow> x \<in> set xs"
  by (cases xs) auto








lemma set_group_codes: "set (group_codes cats ref) \<subseteq> {1, 2}"
  by (auto simp: group_codes_def)

text \<open>
  Claim C9. The feature axis of every single-feature two-group model is specified to be the
  one label \<^verbatim>\<open>log(other / reference)\<close>, built from the label of the other category and the
  reference label. The source builds it from the reference label and a group code instead:
  line 237 takes \<^verbatim>\<open>other\<close> from the set of the integer codes of line 236, so whatever the
  iteration order of the set, the label is \<^verbatim>\<open>log(1 / reference)\<close> or
  \<^verbatim>\<open>log(2 / reference)\<close>, and the second of the \<^verbatim>\<open>groups\<close> coordinates is that integer.
\<close>

theorem SingleDESeq2_feature_label:
  assumes "\<forall>ys. set (set_iter ys) = set ys"
    and "SingleDESeq2_init set_iter table feature_id metadata category_column reference
           normalization = Inr m"
  shows "\<exists>cats ref k.
           getitem metadata category_column = Inr cats
         \<and> (case reference of None \<Rightarrow> first cats | Some r \<Rightarrow> Inr r) = Inr ref
         \<and> (k = 1 \<or> k = 2)
         \<and> map_of (coords m) ''groups'' = Some [PStr ref, PInt k]
         \<and> map_of (coords m) ''features''
             = Some [PStr (''log('' @ (if k = 1 then ''1'' else ''2'') @ '' / '' @ ref @ '')'')]"
proof -
  from SingleDESeq2_init_Inr [OF assms(2)]
  obtain cats ref v where
        c: "getitem metadata category_column = Inr cats"
    and r: "(case reference of None \<Rightarrow> first cats | Some r \<Rightarrow> Inr r) = Inr ref"
    and f: "first (set_iter (set_minus (py_set (map PInt (group_codes cats ref))) [PStr ref]))
             = Inr v"
    and g: "map_of (coords m) ''groups'' = Some [PStr ref, v]"
    and l: "map_of (coords m) ''features''
             = Some [PStr (''log('' @ py_str v @ '' / '' @ ref @ '')'')]"
    by fastforce
  from first_Inr_mem [OF f] assms(1)
  have "v \<in> set (set_minus (py_set (map PInt (group_codes cats ref))) [PStr ref])"
    by simp
  then obtain k where v: "v = PInt k" and "k \<in> set (group_codes cats ref)"
    by (auto simp: set_minus_def py_set_def)
  with set_group_codes [of cats ref] have k: "k = 1 \<or> k = 2" by auto
  then have "py_str v = (if k = 1 then ''1'' else ''2'')"
    using v by (auto simp: str_int_def)
  with c r g l v k show ?thesis by force
qed

theorem SingleDESeq2_feature_label_witness:
  "\<exists>m. SingleDESeq2_init (\<lambda>ys. ys) table22 ''f1'' metadata2 ''Status'' (Some ''Healthy'')
          ''depth'' = Inr m
       \<and> map_of (coords m) ''features'' \<in>
            {Some [PStr ''log(1 / Healthy)''], Some [PStr ''log(2 / Healthy)'']}
       \<and> map_of (coords m) ''features'' \<noteq> Some [PStr ''log(Sick / Healthy)'']"
proof -
  have "\<exists>m. SingleDESeq2_init (\<lambda>ys. ys) table22 ''f1'' metadata2 ''Status'' (Some ''Healthy'')
          ''depth'' = Inr m"
    by (simp add: SingleDESeq2_init_def SingleFeatureModel_init_def table22_def metadata2_def
        getitem_def py_set_def set_minus_def opt_val_def normalization_func_def
        control_loc_of_def group_codes_def)
  then obtain m where
    m: "SingleDESeq2_init (\<lambda>ys. ys) table22 ''f1'' metadata2 ''Status'' (Some ''Healthy'')
          ''depth'' = Inr m"
    by blast
  have p: "\<forall>ys::pyval list. set ((\<lambda>ys. ys) ys) = set ys" by simp
  from SingleDESeq2_feature_label [OF p m]
  obtain cats ref k where
        r: "(case Some ''Healthy'' of None \<Rightarrow> first cats | Some r \<Rightarrow> Inr r) = Inr ref"
    and k: "k = 1 \<or> k = (2::int)"
    and l: "map_of (coords m) ''features''
             = Some [PStr (''log('' @ (if k = 1 then ''1'' else ''2'') @ '' / '' @ ref @ '')'')]"
    by blast
  from r have "ref = ''Healthy''" by simp
  with m k l show ?thesis by auto
qed

end
